theory Spec2Isabelle
  imports Main
begin

section \<open>Requests, contexts and errors\<close>

text \<open>
  \<open>url.Values\<close> in the order of the query string. \<open>Get\<close> returns the first value of a
  key, or the empty string when the key is absent, as \<open>url.Values.Get\<close> does.
\<close>

type_synonym Values = "(string \<times> string) list"

fun Get :: "Values \<Rightarrow> string \<Rightarrow> string" where
  "Get [] key = ''''"
| "Get ((k, v) # vs) key = (if k = key then v else Get vs key)"

text \<open>
  A \<open>context.Context\<close> is the chain of bindings that \<open>context.WithValue\<close> builds;
  \<open>Value\<close> finds the innermost binding of a key.
\<close>

datatype Context = Background | WithValue Context string string


definition authKey :: string where
  "authKey = ''auth''"

text \<open>
  Modelled from the spec: \<open>WithAuthIntoContext\<close> is declared in a file of the repository
  that is not part of the sources at hand. The spec has the self-subject access review
  issued "using the caller's bearer token as the acting identity": the helper binds the
  bearer token in the context that the authenticating cluster client reads.
\<close>

definition WithAuthIntoContext :: "string \<Rightarrow> Context \<Rightarrow> Context" where
  "WithAuthIntoContext bearerToken ctx = WithValue ctx authKey bearerToken"

text \<open>
  The request: the URL query, the body parameters (which \<open>FormValue\<close> consults before
  the URL query) and the request's context.
\<close>

record Request =
  URL_Query :: Values
  PostForm :: Values
  ReqContext :: Context

definition FormValue :: "Request \<Rightarrow> string \<Rightarrow> string" where
  "FormValue r key = Get (PostForm r @ URL_Query r) key"

text \<open>
  Errors are values. \<open>Errorf\<close> is \<open>fmt.Errorf\<close> with a wrapped cause (\<open>%w\<close>),
  \<open>collaboratorError\<close> an error returned by an external collaborator, and the two
  panics are the run-time panics of an index out of range and of a nil dereference.
\<close>

datatype error =
    noStateError
  | randomStringGenerationError
  | noActiveSessionError
  | collaboratorError string
  | Errorf string error
  | panicIndexOutOfRange
  | panicNilDereference

fun Error :: "error \<Rightarrow> string" where
  "Error noStateError = ''request has no `state` parameter''"
| "Error randomStringGenerationError = ''not able to generate new random string''"
| "Error noActiveSessionError = ''no active oauth session found''"
| "Error (collaboratorError m) = m"
| "Error (Errorf m e) = m @ '': '' @ Error e"
| "Error panicIndexOutOfRange = ''index out of range''"
| "Error panicNilDereference = ''nil pointer dereference''"

section \<open>statestorage.go\<close>

text \<open>
  The session manager's data, as far as this code uses it: string values under string
  keys. \<open>Put\<close> stores, \<open>GetString\<close> reads and returns the empty string for a key that
  the session does not hold.
\<close>

type_synonym SessionManager = "string \<rightharpoonup> string"

definition Put :: "SessionManager \<Rightarrow> string \<Rightarrow> string \<Rightarrow> SessionManager" where
  "Put sm key val = sm(key \<mapsto> val)"

definition GetString :: "SessionManager \<Rightarrow> string \<Rightarrow> string" where
  "GetString sm key = (case sm key of None \<Rightarrow> '''' | Some v \<Rightarrow> v)"

definition letterBytes :: string where
  "letterBytes = ''abcdefghijklmnopqrstuvwxyz1234567890''"

text \<open>
  \<open>randStringBytes\<close>: the secure source is the function \<open>rnd\<close>, whose value at \<open>i\<close>
  is the outcome of the call of \<open>rand.Int(rand.Reader, 36)\<close> in round \<open>i\<close> of the loop:
  \<open>None\<close> when the source fails, \<open>Some n\<close> when it draws \<open>n\<close>. The loop runs over the
  indices of the byte slice \<open>b\<close> and writes \<open>letterBytes[n]\<close> at index \<open>i\<close>.
\<close>

fun randStringLoop :: "(nat \<Rightarrow> nat option) \<Rightarrow> nat list \<Rightarrow> string \<Rightarrow> error + string" where
  "randStringLoop rnd [] b = Inr b"
| "randStringLoop rnd (i # rest) b =
     (case rnd i of
        None \<Rightarrow> Inl randomStringGenerationError
      | Some n \<Rightarrow>
          if n < length letterBytes
          then randStringLoop rnd rest (b[i := letterBytes ! n])
          else Inl panicIndexOutOfRange)"

definition randStringBytes :: "(nat \<Rightarrow> nat option) \<Rightarrow> nat \<Rightarrow> error + string" where
  "randStringBytes rnd n = randStringLoop rnd [0..<n] (replicate n (CHR 0x00))"

text \<open>
  \<open>VeilRealState\<close> and \<open>UnveilState\<close> return their result together with the session
  manager's data after the call.
\<close>

definition VeilRealState ::
  "(nat \<Rightarrow> nat option) \<Rightarrow> SessionManager \<Rightarrow> Request \<Rightarrow> (error + string) \<times> SessionManager" where
  "VeilRealState rnd sm req =
     (let state = Get (URL_Query req) ''state'' in
      if state = '''' then (Inl noStateError, sm)
      else (case randStringBytes rnd 32 of
              Inl err \<Rightarrow> (Inl err, sm)
            | Inr newState \<Rightarrow> (Inr newState, Put sm newState state)))"

definition UnveilState :: "SessionManager \<Rightarrow> Request \<Rightarrow> (error + string) \<times> SessionManager" where
  "UnveilState sm req =
     (let state = Get (URL_Query req) ''state'' in
      if state = '''' then (Inl noStateError, sm)
      else (let unveiledState = GetString sm state in (Inr unveiledState, sm)))"

section \<open>Responses and collaborator calls\<close>

text \<open>
  What a handler leaves in the \<open>http.ResponseWriter\<close>: the status code, the body and the
  \<open>Location\<close> header.
\<close>

record Response =
  StatusCode :: nat
  Body :: string
  Location :: string

text \<open>
  Modelled from the spec: \<open>LogErrorAndWriteResponse\<close> and \<open>LogDebugAndWriteResponse\<close>
  are declared in a file of the repository that is not part of the sources at hand.
  The spec has the HTTP-facing layer log the cause on the server and answer with the
  status code and a message: the response carries the status and the message given.
\<close>

definition LogErrorAndWriteResponse :: "nat \<Rightarrow> string \<Rightarrow> Response" where
  "LogErrorAndWriteResponse status msg = \<lparr>StatusCode = status, Body = msg, Location = ''''\<rparr>"

definition LogDebugAndWriteResponse :: "nat \<Rightarrow> string \<Rightarrow> Response" where
  "LogDebugAndWriteResponse status msg = \<lparr>StatusCode = status, Body = msg, Location = ''''\<rparr>"

record viewData =
  Title :: string
  Message :: string

record ResourceAttributes =
  Namespace :: string
  Verb :: string
  Group :: string
  Version :: string
  Resource :: string

record oauth2Config =
  ClientID :: string
  CfgClientSecret :: string
  RedirectURL :: string
  CfgEndpoint :: string
  CfgScopes :: "string list"

record oauth2Token =
  AccessToken :: string
  TokenType :: string
  RefreshToken :: string
  Expiry :: int

record apiToken =
  ApiAccessToken :: string
  ApiTokenType :: string
  ApiRefreshToken :: string
  ApiExpiry :: nat

text \<open>
  The calls that leave the process, in the order in which a handler makes them: the
  creation of a \<open>SelfSubjectAccessReview\<close>, the provider's token exchange, the read of
  the \<open>SPIAccessToken\<close> object, the write to the token storage, the audit log and the
  execution of the error page's template.
\<close>

datatype event =
    CallCreate Context ResourceAttributes
  | CallExchange oauth2Config Context string string
  | CallGet Context string string
  | CallStore Context string apiToken
  | AuditLog string string string
  | CallExecute viewData


fun isExchange :: "event \<Rightarrow> bool" where
  "isExchange (CallExchange cfg ctx code scope) = True"
| "isExchange e = False"


definition exchangeCalls :: "event list \<Rightarrow> nat" where
  "exchangeCalls evs = length (filter isExchange evs)"

section \<open>The handlers of the callback pages\<close>

text \<open>
  The \<open>http.ResponseWriter\<close> of the standard library, for a handler that writes to it
  step by step: the first \<open>WriteHeader\<close> fixes the status and a later one is ignored; a
  \<open>Write\<close> before any \<open>WriteHeader\<close> sends the status 200 first, even when it writes
  no byte. A handler that returns without having written a header is answered with 200.
\<close>

record ResponseWriter =
  wroteHeader :: bool
  wStatus :: nat
  wBody :: string

definition newResponseWriter :: ResponseWriter where
  "newResponseWriter = \<lparr>wroteHeader = False, wStatus = 200, wBody = ''''\<rparr>"

definition WriteHeader :: "ResponseWriter \<Rightarrow> nat \<Rightarrow> ResponseWriter" where
  "WriteHeader w code = (if wroteHeader w then w else w\<lparr>wroteHeader := True, wStatus := code\<rparr>)"

definition Write :: "ResponseWriter \<Rightarrow> string \<Rightarrow> ResponseWriter" where
  "Write w bytes =
     (let w1 = (if wroteHeader w then w else WriteHeader w 200)
      in w1\<lparr>wBody := wBody w1 @ bytes\<rparr>)"

definition responseOf :: "ResponseWriter \<Rightarrow> Response" where
  "responseOf w = \<lparr>StatusCode = wStatus w, Body = wBody w, Location = ''''\<rparr>"

text \<open>
  \<open>CallbackErrorHandler\<close>: \<open>tmpl\<close> is the outcome of \<open>template.ParseFiles\<close>, whose
  error the handler discards: \<open>None\<close> is the nil template that a failed parse leaves,
  and executing it panics with a nil dereference before anything is rendered or
  written. A parsed template, executed on the view data, makes a sequence of writes to
  the response writer and then returns \<open>nil\<close> or an error; the error may come after a
  part of the page has been written. The handler's result is the panic or the response.
\<close>

definition CallbackErrorHandler ::
  "(viewData \<Rightarrow> string list \<times> error option) option \<Rightarrow> Request \<Rightarrow>
     (error + Response) \<times> event list" where
  "CallbackErrorHandler tmpl r =
     (let q = URL_Query r;
          errorMsg = Get q ''error'';
          errorDescription = Get q ''error_description'';
          data = \<lparr>Title = errorMsg, Message = errorDescription\<rparr>
      in case tmpl of
           None \<Rightarrow> (Inl panicNilDereference, [])
         | Some tmpl_Execute \<Rightarrow>
           (case tmpl_Execute data of
              (writes, None) \<Rightarrow>
                (Inr (responseOf (WriteHeader (foldl Write newResponseWriter writes) 200)),
                 [CallExecute data])
            | (writes, Some err) \<Rightarrow>
                (Inr (responseOf
                   (Write (WriteHeader (foldl Write newResponseWriter writes) 500)
                      (''Error response returned to OAuth callback: '' @ errorMsg @
                       ''. Message: '' @ errorDescription @ '' ''))),
                 [CallExecute data])))"

section \<open>The controller\<close>

record AnonymousOAuthState =
  TokenName :: string
  TokenNamespace :: string
  ServiceProviderType :: string
  Scopes :: "string list"

definition zeroState :: AnonymousOAuthState where
  "zeroState = \<lparr>TokenName = '''', TokenNamespace = '''', ServiceProviderType = '''', Scopes = []\<rparr>"

datatype oauthFinishResult =
  oauthFinishAuthenticated | oauthFinishK8sAuthRequired | oauthFinishError

record exchangeResult =
  exchangeState :: AnonymousOAuthState
  result :: oauthFinishResult
  token :: "oauth2Token option"
  authorizationHeader :: string

text \<open>The literal \<open>exchangeResult{result: res}\<close>: every other field has its zero value.\<close>

definition exchangeResultOf :: "oauthFinishResult \<Rightarrow> exchangeResult" where
  "exchangeResultOf res =
     \<lparr>exchangeState = zeroState, result = res, token = None, authorizationHeader = ''''\<rparr>"

record Codec =
  ParseAnonymous :: "string \<Rightarrow> error + AnonymousOAuthState"
  ParseInto :: "string \<Rightarrow> error + AnonymousOAuthState"

record ServiceProviderConfiguration =
  ClientId :: string
  ClientSecret :: string
  ConfigServiceProviderType :: string

text \<open>
  The controller: the fields of \<open>commonController\<close> that are data, and the behaviour
  of its collaborators, which live outside this repository: the state codec
  (\<open>oauthstate.NewCodec\<close>), the authenticator (\<open>GetToken\<close>), the cluster client
  (\<open>Create\<close>, \<open>Get\<close>), the token storage (\<open>Store\<close>), the OAuth library (\<open>Exchange\<close>,
  \<open>AuthCodeURL\<close>), the redirect template, the secure random source (see
  \<open>randStringBytes\<close>), \<open>strings.ToLower\<close> and the group and version of the API.
  \<open>http_Redirect\<close> gives the \<open>Location\<close> header and the body that \<open>http.Redirect\<close>
  of the standard library writes for a request and a target: it resolves a relative
  target against the request's path, and writes a short anchor for a GET. The redirect
  template is taken to render its page as a whole, or to fail before it has written
  anything.
\<close>

record commonController =
  Config :: ServiceProviderConfiguration
  JwtSigningSecret :: string
  Endpoint :: string
  BaseUrl :: string
  NewCodec :: "string \<Rightarrow> error + Codec"
  GetToken :: "Request \<Rightarrow> error + string"
  K8sClient_Create :: "Context \<Rightarrow> ResourceAttributes \<Rightarrow> error + bool"
  K8sClient_Get :: "Context \<Rightarrow> string \<Rightarrow> string \<Rightarrow> error + string"
  TokenStorage_Store :: "Context \<Rightarrow> string \<Rightarrow> apiToken \<Rightarrow> error option"
  Exchange :: "oauth2Config \<Rightarrow> Context \<Rightarrow> string \<Rightarrow> string \<Rightarrow> error + oauth2Token"
  AuthCodeURL :: "oauth2Config \<Rightarrow> string \<Rightarrow> string"
  RedirectTemplate_Execute :: "string \<Rightarrow> error + string"
  rand_Int :: "nat \<Rightarrow> nat option"
  strings_ToLower :: "string \<Rightarrow> string"
  http_Redirect :: "Request \<Rightarrow> string \<Rightarrow> string \<times> string"
  GroupVersion_Group :: string
  GroupVersion_Version :: string

definition TrimSuffix :: "string \<Rightarrow> string \<Rightarrow> string" where
  "TrimSuffix s suffix =
     (if length suffix \<le> length s \<and> drop (length s - length suffix) s = suffix
      then take (length s - length suffix) s else s)"

definition redirectUrl :: "commonController \<Rightarrow> string" where
  "redirectUrl c =
     TrimSuffix (BaseUrl c) ''/'' @ ''/'' @
     strings_ToLower c (ConfigServiceProviderType (Config c)) @ ''/callback''"

definition newOAuth2Config :: "commonController \<Rightarrow> oauth2Config" where
  "newOAuth2Config c =
     \<lparr>ClientID = ClientId (Config c), CfgClientSecret = ClientSecret (Config c),
      RedirectURL = redirectUrl c, CfgEndpoint = '''', CfgScopes = []\<rparr>"

text \<open>
  \<open>checkIdentityHasAccess\<close> returns its result and the call it made: the review is
  created under the context that \<open>WithAuthIntoContext\<close> builds from the token argument
  and the request's context.
\<close>

definition checkIdentityHasAccess ::
  "commonController \<Rightarrow> string \<Rightarrow> Request \<Rightarrow> AnonymousOAuthState \<Rightarrow> (error + bool) \<times> event list" where
  "checkIdentityHasAccess c bearer req state =
     (let review = \<lparr>Namespace = TokenNamespace state, Verb = ''create'',
                     Group = GroupVersion_Group c, Version = GroupVersion_Version c,
                     Resource = ''spiaccesstokendataupdates''\<rparr>;
          ctx = WithAuthIntoContext bearer (ReqContext req)
      in case K8sClient_Create c ctx review of
           Inl err \<Rightarrow>
             (Inl (Errorf ''failed to create SelfSubjectAccessReview'' err), [CallCreate ctx review])
         | Inr allowed \<Rightarrow> (Inr allowed, [CallCreate ctx review]))"

text \<open>
  \<open>Authenticate\<close> returns the response, the session manager's data after the call and
  the calls made.
\<close>

definition Authenticate ::
  "commonController \<Rightarrow> SessionManager \<Rightarrow> Request \<Rightarrow> Response \<times> SessionManager \<times> event list" where
  "Authenticate c sm r =
     (let stateString = FormValue r ''state'' in
      case NewCodec c (JwtSigningSecret c) of
        Inl err \<Rightarrow>
          (LogErrorAndWriteResponse 500 ''failed to instantiate OAuth stateString codec'', sm, [])
      | Inr codec \<Rightarrow>
      (case ParseAnonymous codec stateString of
        Inl err \<Rightarrow> (LogErrorAndWriteResponse 400 ''failed to decode the OAuth state'', sm, [])
      | Inr state \<Rightarrow>
      (case GetToken c r of
        Inl err \<Rightarrow>
          (LogErrorAndWriteResponse 401
             (''No active session was found. Please use `/login` method to authorize your '' @
              ''request and try again. Or provide the token as a `k8s_token` query parameter.''),
           sm, [])
      | Inr bearer \<Rightarrow>
      (case checkIdentityHasAccess c bearer r state of
        (Inl err, evs) \<Rightarrow>
          (LogErrorAndWriteResponse 500
             ''failed to determine if the authenticated user has access'', sm, evs)
      | (Inr hasAccess, evs) \<Rightarrow>
          if \<not> hasAccess
          then (LogDebugAndWriteResponse 401
                  ''authenticating the request in Kubernetes unsuccessful'', sm, evs)
          else
            (let evs1 = evs @ [AuditLog ''OAuth authentication flow started''
                                 (TokenNamespace state) (TokenName state)]
             in case VeilRealState (rand_Int c) sm r of
                  (Inl err, sm1) \<Rightarrow> (LogErrorAndWriteResponse 400 (Error err), sm1, evs1)
                | (Inr newStateString, sm1) \<Rightarrow>
                    (let keyedState = state;
                         oauthCfg = (newOAuth2Config c)
                           \<lparr>CfgEndpoint := Endpoint c, CfgScopes := Scopes keyedState\<rparr>;
                         Url = AuthCodeURL c oauthCfg newStateString
                     in case RedirectTemplate_Execute c Url of
                          Inl err \<Rightarrow>
                            (LogErrorAndWriteResponse 500
                               ''failed to return redirect notice HTML page'', sm1, evs1)
                        | Inr page \<Rightarrow>
                            (\<lparr>StatusCode = 200, Body = page, Location = ''''\<rparr>, sm1, evs1)))))))"

text \<open>
  \<open>finishOAuthExchange\<close> returns the pair of its Go results (the exchange result and the
  error, \<open>None\<close> for \<open>nil\<close>), the session manager's data after the call and the calls
  made.
\<close>

definition finishOAuthExchange ::
  "commonController \<Rightarrow> SessionManager \<Rightarrow> Context \<Rightarrow> Request \<Rightarrow> string \<Rightarrow>
     (exchangeResult \<times> error option) \<times> SessionManager \<times> event list" where
  "finishOAuthExchange c sm ctx r endpoint =
     (case UnveilState sm r of
        (Inl err, sm1) \<Rightarrow>
          ((exchangeResultOf oauthFinishError,
            Some (Errorf ''failed to unveil token state'' err)), sm1, [])
      | (Inr stateString, sm1) \<Rightarrow>
      (case NewCodec c (JwtSigningSecret c) of
        Inl err \<Rightarrow>
          ((exchangeResultOf oauthFinishError,
            Some (Errorf ''failed to create JWT codec'' err)), sm1, [])
      | Inr codec \<Rightarrow>
      (case ParseInto codec stateString of
        Inl err \<Rightarrow>
          ((exchangeResultOf oauthFinishError,
            Some (Errorf ''failed to parse JWT state string'' err)), sm1, [])
      | Inr state \<Rightarrow>
      (case GetToken c r of
        Inl err \<Rightarrow>
          ((exchangeResultOf oauthFinishK8sAuthRequired, Some noActiveSessionError), sm1, [])
      | Inr k8sToken \<Rightarrow>
          (let oauthCfg = (newOAuth2Config c)\<lparr>CfgEndpoint := endpoint\<rparr>;
               code = FormValue r ''code'';
               scopeOption = FormValue r ''scope''
           in case Exchange c oauthCfg ctx code scopeOption of
                Inl err \<Rightarrow>
                  ((exchangeResultOf oauthFinishError,
                    Some (Errorf ''failed to finish the OAuth exchange'' err)),
                   sm1, [CallExchange oauthCfg ctx code scopeOption])
              | Inr tok \<Rightarrow>
                  ((\<lparr>exchangeState = state, result = oauthFinishAuthenticated,
                     token = Some tok, authorizationHeader = k8sToken\<rparr>, None),
                   sm1, [CallExchange oauthCfg ctx code scopeOption]))))))"

text \<open>
  \<open>syncTokenData\<close>: the conversion \<open>uint64(Expiry.Unix())\<close> wraps a negative time
  around \<open>2 ^ 64\<close>; the token of the exchange is a pointer, \<open>None\<close> for \<open>nil\<close>.
\<close>

definition syncTokenData ::
  "commonController \<Rightarrow> Context \<Rightarrow> exchangeResult \<Rightarrow> error option \<times> event list" where
  "syncTokenData c ctx exchange =
     (let ctx1 = WithAuthIntoContext (authorizationHeader exchange) ctx;
          name = TokenName (exchangeState exchange);
          namespace = TokenNamespace (exchangeState exchange)
      in case K8sClient_Get c ctx1 name namespace of
           Inl err \<Rightarrow>
             (Some (Errorf (''failed to get the SPIAccessToken object '' @ namespace @ ''/'' @ name)
                      err),
              [CallGet ctx1 name namespace])
         | Inr accessToken \<Rightarrow>
           (case token exchange of
              None \<Rightarrow> (Some panicNilDereference, [CallGet ctx1 name namespace])
            | Some t \<Rightarrow>
                (let apiTok = \<lparr>ApiAccessToken = AccessToken t, ApiTokenType = TokenType t,
                               ApiRefreshToken = RefreshToken t,
                               ApiExpiry = nat (Expiry t mod 2 ^ 64)\<rparr>
                 in case TokenStorage_Store c ctx1 accessToken apiTok of
                      Some err \<Rightarrow>
                        (Some (Errorf ''failed to persist the token to storage'' err),
                         [CallGet ctx1 name namespace, CallStore ctx1 accessToken apiTok])
                    | None \<Rightarrow>
                        (None, [CallGet ctx1 name namespace, CallStore ctx1 accessToken apiTok]))))"

definition Callback ::
  "commonController \<Rightarrow> SessionManager \<Rightarrow> Context \<Rightarrow> Request \<Rightarrow>
     Response \<times> SessionManager \<times> event list" where
  "Callback c sm ctx r =
     (case finishOAuthExchange c sm ctx r (Endpoint c) of
        ((exchange, Some err), sm1, evs) \<Rightarrow>
          (LogErrorAndWriteResponse 400 ''error in Service Provider token exchange'', sm1, evs)
      | ((exchange, None), sm1, evs) \<Rightarrow>
          if result exchange = oauthFinishK8sAuthRequired
          then (LogErrorAndWriteResponse 401 ''could not authenticate to Kubernetes'', sm1, evs)
          else
            (case syncTokenData c ctx exchange of
               (Some err, evs1) \<Rightarrow>
                 (LogErrorAndWriteResponse 500 ''failed to store token data to cluster'',
                  sm1, evs @ evs1)
             | (None, evs1) \<Rightarrow>
                 (let redirectLocation = FormValue r ''redirect_after_login'';
                      redirectLocation1 =
                        (if redirectLocation = ''''
                         then TrimSuffix (BaseUrl c) ''/'' @ ''/'' @ ''callback_success''
                         else redirectLocation)
                  in (case http_Redirect c r redirectLocation1 of
                        (location, page) \<Rightarrow>
                          \<lparr>StatusCode = 302, Body = page, Location = location\<rparr>,
                      sm1,
                      evs @ evs1 @
                      [AuditLog ''OAuth authentication completed successfully''
                         (TokenNamespace (exchangeState exchange))
                         (TokenName (exchangeState exchange))]))))"

section \<open>Example inputs\<close>

text \<open>
  A controller whose collaborators are test doubles: the codec accepts the one string
  \<open>jwt\<close>, the authenticator reads the \<open>k8s_token\<close> query parameter, the cluster allows
  every review, the provider accepts every code, and the random source always draws 0.
\<close>

definition exampleState :: AnonymousOAuthState where
  "exampleState =
     \<lparr>TokenName = ''tok1'', TokenNamespace = ''ns1'', ServiceProviderType = ''github'',
      Scopes = [''repo'']\<rparr>"

definition exampleParse :: "string \<Rightarrow> error + AnonymousOAuthState" where
  "exampleParse s = (if s = ''jwt'' then Inr exampleState else Inl (collaboratorError ''invalid state''))"

definition exampleCodec :: Codec where
  "exampleCodec = \<lparr>ParseAnonymous = exampleParse, ParseInto = exampleParse\<rparr>"

definition exampleNewCodec :: "string \<Rightarrow> error + Codec" where
  "exampleNewCodec secret = Inr exampleCodec"

definition exampleGetToken :: "Request \<Rightarrow> error + string" where
  "exampleGetToken r =
     (if Get (URL_Query r) ''k8s_token'' = '''' then Inl (collaboratorError ''no token found'')
      else Inr (Get (URL_Query r) ''k8s_token''))"

definition exampleCreate :: "Context \<Rightarrow> ResourceAttributes \<Rightarrow> error + bool" where
  "exampleCreate ctx review = Inr True"

definition exampleGet :: "Context \<Rightarrow> string \<Rightarrow> string \<Rightarrow> error + string" where
  "exampleGet ctx name namespace = Inr (namespace @ ''/'' @ name)"

definition exampleStore :: "Context \<Rightarrow> string \<Rightarrow> apiToken \<Rightarrow> error option" where
  "exampleStore ctx obj t = None"

definition exampleExchange ::
  "oauth2Config \<Rightarrow> Context \<Rightarrow> string \<Rightarrow> string \<Rightarrow> error + oauth2Token" where
  "exampleExchange cfg ctx code scope =
     Inr \<lparr>AccessToken = ''at'', TokenType = ''bearer'', RefreshToken = ''rt'', Expiry = 0\<rparr>"

definition exampleAuthCodeURL :: "oauth2Config \<Rightarrow> string \<Rightarrow> string" where
  "exampleAuthCodeURL cfg st = CfgEndpoint cfg @ ''?state='' @ st"

definition exampleExecute :: "string \<Rightarrow> error + string" where
  "exampleExecute url = Inr url"

definition zeroDraws :: "nat \<Rightarrow> nat option" where
  "zeroDraws i = Some 0"

definition failingDraws :: "nat \<Rightarrow> nat option" where
  "failingDraws i = (if i < 5 then Some i else None)"

definition exampleToLower :: "string \<Rightarrow> string" where
  "exampleToLower s = s"

definition exampleRedirect :: "Request \<Rightarrow> string \<Rightarrow> string \<times> string" where
  "exampleRedirect r url = (url, ''<a href='' @ url @ ''>Found</a>.'')"

text \<open>Draws that differ from round to round: round \<open>i\<close> draws \<open>i + 4\<close>.\<close>

definition shiftedDraws :: "nat \<Rightarrow> nat option" where
  "shiftedDraws i = Some (i + 4)"

definition shiftedKs :: "nat list" where
  "shiftedKs = [4..<36]"

definition veiledE :: string where
  "veiledE = ''efghijklmnopqrstuvwxyz1234567890''"

definition exampleController :: commonController where
  "exampleController =
     \<lparr>Config = \<lparr>ClientId = ''id'', ClientSecret = ''secret'', ConfigServiceProviderType = ''github''\<rparr>,
      JwtSigningSecret = ''key'',
      Endpoint = ''https://provider.example/oauth'',
      BaseUrl = ''https://spi.example/'',
      NewCodec = exampleNewCodec,
      GetToken = exampleGetToken,
      K8sClient_Create = exampleCreate,
      K8sClient_Get = exampleGet,
      TokenStorage_Store = exampleStore,
      Exchange = exampleExchange,
      AuthCodeURL = exampleAuthCodeURL,
      RedirectTemplate_Execute = exampleExecute,
      rand_Int = zeroDraws,
      strings_ToLower = exampleToLower,
      http_Redirect = exampleRedirect,
      GroupVersion_Group = ''appstudio.redhat.com'',
      GroupVersion_Version = ''v1beta1''\<rparr>"

definition failingRandController :: commonController where
  "failingRandController = exampleController\<lparr>rand_Int := failingDraws\<rparr>"

definition veiledA :: string where
  "veiledA = ''aaaaaaaaaaaaaaaaaaaaaaaaaaaaaaaa''"

text \<open>The requests: the start of a flow, and callbacks with and without a bearer token.\<close>

definition authenticateRequest :: Request where
  "authenticateRequest =
     \<lparr>URL_Query = [(''state'', ''jwt''), (''k8s_token'', ''alice'')], PostForm = [],
      ReqContext = Background\<rparr>"

definition callbackRequest :: Request where
  "callbackRequest =
     \<lparr>URL_Query = [(''state'', veiledA), (''code'', ''c0de''), (''k8s_token'', ''alice'')],
      PostForm = [], ReqContext = Background\<rparr>"

definition callbackNoBearer :: Request where
  "callbackNoBearer =
     \<lparr>URL_Query = [(''state'', veiledA), (''code'', ''c0de'')], PostForm = [],
      ReqContext = Background\<rparr>"

definition forgedCallback :: Request where
  "forgedCallback =
     \<lparr>URL_Query = [(''state'', ''forged''), (''code'', ''c0de''), (''k8s_token'', ''alice'')],
      PostForm = [], ReqContext = Background\<rparr>"

definition noStateRequest :: Request where
  "noStateRequest = \<lparr>URL_Query = [(''code'', ''c0de'')], PostForm = [], ReqContext = Background\<rparr>"

text \<open>A request whose real state happens to be the string that the draws produce.\<close>

definition collidingRequest :: Request where
  "collidingRequest = \<lparr>URL_Query = [(''state'', veiledA)], PostForm = [], ReqContext = Background\<rparr>"

definition errorPageRequest :: Request where
  "errorPageRequest =
     \<lparr>URL_Query = [(''error'', ''access_denied''), (''error_description'', ''<b>denied</b>'')],
      PostForm = [], ReqContext = Background\<rparr>"

text \<open>
  Templates of the error page: one that renders the page in two writes, one that fails
  after its first write, and one that fails before it writes.
\<close>

definition exampleTemplate :: "viewData \<Rightarrow> string list \<times> error option" where
  "exampleTemplate d = ([Title d, '': '' @ Message d], None)"

definition brokenTemplate :: "viewData \<Rightarrow> string list \<times> error option" where
  "brokenTemplate d = ([''<h1>''], Some (collaboratorError ''no such field''))"

definition silentTemplate :: "viewData \<Rightarrow> string list \<times> error option" where
  "silentTemplate d = ([], Some (collaboratorError ''cannot escape''))"

text \<open>The session after the flow of \<open>authenticateRequest\<close> has started.\<close>

definition exampleSession :: SessionManager where
  "exampleSession = Put Map.empty veiledA ''jwt''"

section \<open>The random string\<close>

lemma length_letterBytes: "length letterBytes = 36"
  by (simp add: letterBytes_def)

lemma distinct_letterBytes: "distinct letterBytes"
  by (simp add: letterBytes_def)

text \<open>
  The loop's invariant: the slice keeps its length, every index visited holds the
  letter of that round's draw, and no other index changes.
\<close>

lemma randStringLoop_inv:
  "randStringLoop rnd ixs b = Inr tok \<Longrightarrow> distinct ixs \<Longrightarrow> \<forall>i\<in>set ixs. i < length b \<Longrightarrow>
     length tok = length b \<and>
     (\<forall>i\<in>set ixs. \<exists>n<length letterBytes. rnd i = Some n \<and> tok ! i = letterBytes ! n) \<and>
     (\<forall>j<length b. j \<notin> set ixs \<longrightarrow> tok ! j = b ! j)"
proof (induction ixs arbitrary: b)
  case Nil
  then show ?case by simp
next
  case (Cons i rest)
  from Cons.prems(1) obtain n where n: "rnd i = Some n" "n < length letterBytes"
    and rec: "randStringLoop rnd rest (b[i := letterBytes ! n]) = Inr tok"
    by (auto split: option.splits if_splits)
  from Cons.prems have d: "distinct rest" "i \<notin> set rest" "i < length b"
    and r: "\<forall>k\<in>set rest. k < length (b[i := letterBytes ! n])" by auto
  from Cons.IH[OF rec d(1) r]
  have ih: "length tok = length b"
    "\<forall>k\<in>set rest. \<exists>m<length letterBytes. rnd k = Some m \<and> tok ! k = letterBytes ! m"
    "\<forall>j<length b. j \<notin> set rest \<longrightarrow> tok ! j = (b[i := letterBytes ! n]) ! j"
    by auto
  from ih(3) d have "tok ! i = letterBytes ! n" by simp
  with n ih show ?case by (auto simp: nth_list_update)
qed

lemma randStringBytes_length:
  assumes "randStringBytes rnd n = Inr tok"
  shows "length tok = n"
  using randStringLoop_inv[OF assms[unfolded randStringBytes_def]] by simp

lemma randStringBytes_nth:
  assumes "randStringBytes rnd n = Inr tok" and "i < n"
  shows "\<exists>k<length letterBytes. rnd i = Some k \<and> tok ! i = letterBytes ! k"
  using randStringLoop_inv[OF assms(1)[unfolded randStringBytes_def]] assms(2) by simp

lemma randStringBytes_alphabet:
  assumes "randStringBytes rnd n = Inr tok"
  shows "set tok \<subseteq> set letterBytes"
proof
  fix c assume "c \<in> set tok"
  then obtain i where i: "i < length tok" "tok ! i = c"
    by (auto simp: in_set_conv_nth)
  from i(1) have "i < n" by (simp add: randStringBytes_length[OF assms])
  from randStringBytes_nth[OF assms this] i(2)
  obtain k where "k < length letterBytes" "c = letterBytes ! k" by auto
  then show "c \<in> set letterBytes" by simp
qed

text \<open>The first round in which the source fails ends the loop with the generation error.\<close>

lemma randStringLoop_fails:
  "\<forall>j\<in>set pre. \<exists>n<length letterBytes. rnd j = Some n \<Longrightarrow> rnd i = None \<Longrightarrow>
     randStringLoop rnd (pre @ i # post) b = Inl randomStringGenerationError"
  by (induction pre arbitrary: b) auto

lemma randStringBytes_fails:
  assumes "i < n" and "rnd i = None" and "\<forall>j<i. \<exists>k<length letterBytes. rnd j = Some k"
  shows "randStringBytes rnd n = Inl randomStringGenerationError"
proof -
  from assms(1) have "[0..<i + (n - i)] = [0..<i] @ [i..<i + (n - i)]"
    by (intro upt_add_eq_append) simp
  with assms(1) have "[0..<n] = [0..<i] @ i # [Suc i..<n]"
    by (simp add: upt_conv_Cons)
  moreover from assms(3) have "\<forall>j\<in>set [0..<i]. \<exists>k<length letterBytes. rnd j = Some k"
    by simp
  then have "randStringLoop rnd ([0..<i] @ i # [Suc i..<n]) (replicate n (CHR 0x00)) =
               Inl randomStringGenerationError"
    using assms(2) by (rule randStringLoop_fails)
  ultimately show ?thesis
    by (simp add: randStringBytes_def)
qed

text \<open>Draws that are all in range are all accepted, and the result is the string of their letters.\<close>

lemma randStringLoop_accepts:
  "\<forall>i\<in>set ixs. \<exists>n<length letterBytes. rnd i = Some n \<Longrightarrow>
     \<exists>tok. randStringLoop rnd ixs b = Inr tok"
  by (induction ixs arbitrary: b) auto

lemma randStringBytes_draws:
  assumes "length ks = n"
    and "\<forall>i<n. ks ! i < length letterBytes \<and> rnd i = Some (ks ! i)"
  shows "randStringBytes rnd n = Inr (map (\<lambda>k. letterBytes ! k) ks)"
proof -
  from assms(2) have "\<forall>i\<in>set [0..<n]. \<exists>k<length letterBytes. rnd i = Some k"
    by auto
  from randStringLoop_accepts[OF this]
  obtain tok where t: "randStringBytes rnd n = Inr tok"
    unfolding randStringBytes_def by blast
  have "tok = map (\<lambda>k. letterBytes ! k) ks"
  proof (rule nth_equalityI)
    show "length tok = length (map (\<lambda>k. letterBytes ! k) ks)"
      using randStringBytes_length[OF t] assms(1) by simp
  next
    fix i assume "i < length tok"
    then have i: "i < n" by (simp add: randStringBytes_length[OF t])
    from randStringBytes_nth[OF t i] obtain k where
      "rnd i = Some k" "tok ! i = letterBytes ! k" by blast
    moreover from assms(2) i have "rnd i = Some (ks ! i)" by simp
    ultimately have "tok ! i = letterBytes ! (ks ! i)" by simp
    with i assms(1) show "tok ! i = map (\<lambda>k. letterBytes ! k) ks ! i" by simp
  qed
  with t show ?thesis by simp
qed

text \<open>
  The letters of \<open>letterBytes\<close> are distinct: sequences of indices and strings of
  letters correspond one to one.
\<close>

lemma letters_inj:
  assumes "length ks = length ks1"
    and "\<forall>k\<in>set ks. k < length letterBytes" and "\<forall>k\<in>set ks1. k < length letterBytes"
    and "map (\<lambda>k. letterBytes ! k) ks = map (\<lambda>k. letterBytes ! k) ks1"
  shows "ks = ks1"
proof (rule nth_equalityI)
  show "length ks = length ks1" by (rule assms(1))
next
  fix i assume i: "i < length ks"
  with assms(1) have i1: "i < length ks1" by simp
  have "letterBytes ! (ks ! i) = map (\<lambda>k. letterBytes ! k) ks ! i"
    using i by (simp only: nth_map)
  also have "\<dots> = map (\<lambda>k. letterBytes ! k) ks1 ! i"
    by (simp only: assms(4))
  also have "\<dots> = letterBytes ! (ks1 ! i)"
    using i1 by (simp only: nth_map)
  finally have e: "letterBytes ! (ks ! i) = letterBytes ! (ks1 ! i)" .
  from i assms(2) have a: "ks ! i < length letterBytes" by simp
  from i1 assms(3) have b: "ks1 ! i < length letterBytes" by simp
  from nth_eq_iff_index_eq[OF distinct_letterBytes a b] e show "ks ! i = ks1 ! i"
    by blast
qed

lemma letters_surj:
  "set t \<subseteq> set letterBytes \<Longrightarrow>
     \<exists>ks. length ks = length t \<and> (\<forall>k\<in>set ks. k < length letterBytes) \<and>
          map (\<lambda>k. letterBytes ! k) ks = t"
proof (induction t)
  case Nil
  then show ?case by simp
next
  case (Cons ch t)
  from Cons.prems have "set t \<subseteq> set letterBytes" by simp
  from Cons.IH[OF this] obtain ks where ks: "length ks = length t"
    "\<forall>k\<in>set ks. k < length letterBytes" "map (\<lambda>k. letterBytes ! k) ks = t"
    by blast
  from Cons.prems have "ch \<in> set letterBytes" by simp
  then obtain k where k: "k < length letterBytes" "letterBytes ! k = ch"
    by (auto simp: in_set_conv_nth)
  show ?case
  proof (intro exI conjI)
    show "length (k # ks) = length (ch # t)" using ks(1) by simp
    show "\<forall>j\<in>set (k # ks). j < length letterBytes" using ks(2) k(1) by simp
    show "map (\<lambda>j. letterBytes ! j) (k # ks) = ch # t" using ks(3) k(2) by simp
  qed
qed

lemma shiftedDraws_letters: "map (\<lambda>k. letterBytes ! k) shiftedKs = veiledE"
  by (simp add: shiftedKs_def veiledE_def letterBytes_def)

lemma shiftedKs_length: "length shiftedKs = 32"
  by (simp add: shiftedKs_def)

lemma shiftedKs_nth:
  assumes "i < 32"
  shows "shiftedKs ! i = 4 + i"
proof -
  from assms have "4 + i < 36" by simp
  then show ?thesis unfolding shiftedKs_def by (rule nth_upt)
qed

lemma shiftedKs_draws: "\<forall>i<32. shiftedKs ! i < 36 \<and> shiftedDraws i = Some (shiftedKs ! i)"
  by (simp add: shiftedKs_nth shiftedDraws_def)

lemma zeroDraws_token: "randStringBytes zeroDraws 32 = Inr veiledA"
  unfolding veiledA_def by code_simp

lemma failingDraws_token: "randStringBytes failingDraws 32 = Inl randomStringGenerationError"
  by code_simp

lemma veiledA_nonempty: "veiledA \<noteq> ''''"
  by (simp add: veiledA_def)

lemma VeilRealState_Inr:
  assumes "VeilRealState rnd sm req = (Inr veiled, sm1)"
  shows "Get (URL_Query req) ''state'' \<noteq> ''''"
    and "randStringBytes rnd 32 = Inr veiled"
    and "sm1 = Put sm veiled (Get (URL_Query req) ''state'')"
  using assms by (auto simp: VeilRealState_def Let_def split: if_splits sum.splits)

lemma VeilRealState_zeroDraws:
  "Get (URL_Query req) ''state'' \<noteq> '''' \<Longrightarrow>
     VeilRealState zeroDraws sm req = (Inr veiledA, Put sm veiledA (Get (URL_Query req) ''state''))"
  by (simp add: VeilRealState_def zeroDraws_token)

section \<open>The controller's calls\<close>

lemmas example_defs =
  exampleController_def failingRandController_def exampleNewCodec_def exampleCodec_def
  exampleParse_def exampleState_def exampleGetToken_def exampleCreate_def exampleGet_def
  exampleStore_def exampleExchange_def exampleAuthCodeURL_def exampleExecute_def
  exampleToLower_def exampleRedirect_def authenticateRequest_def callbackRequest_def callbackNoBearer_def
  forgedCallback_def exampleSession_def




lemma finishOAuthExchange_session:
  "fst (snd (finishOAuthExchange c sm ctx r endpoint)) = sm"
  unfolding finishOAuthExchange_def UnveilState_def Let_def
  by (auto split: sum.splits prod.splits)








text \<open>The response writer after a template's writes.\<close>

lemma foldl_Write:
  "wStatus w = 200 \<Longrightarrow>
     wStatus (foldl Write w ws) = 200 \<and> wBody (foldl Write w ws) = wBody w @ concat ws \<and>
     wroteHeader (foldl Write w ws) = (wroteHeader w \<or> ws \<noteq> [])"
proof (induction ws arbitrary: w)
  case Nil
  then show ?case by simp
next
  case (Cons x ws)
  have "wStatus (Write w x) = 200" using Cons.prems
    by (simp add: Write_def WriteHeader_def Let_def)
  from Cons.IH[OF this] show ?case
    by (auto simp: Write_def WriteHeader_def Let_def)
qed

lemma template_writes:
  "wStatus (foldl Write newResponseWriter ws) = 200 \<and>
   wBody (foldl Write newResponseWriter ws) = concat ws \<and>
   wroteHeader (foldl Write newResponseWriter ws) = (ws \<noteq> [])"
  using foldl_Write[of newResponseWriter ws] by (simp add: newResponseWriter_def)

text \<open>
  A state that the session does not hold is unveiled as the empty string; when the
  codec rejects it, the exchange ends there, with no call made.
\<close>

lemma finishOAuthExchange_unknown_state:
  assumes "sm (Get (URL_Query r) ''state'') = None"
    and "\<forall>codec. NewCodec c (JwtSigningSecret c) = Inr codec \<longrightarrow> isl (ParseInto codec '''')"
  shows "\<exists>err. finishOAuthExchange c sm ctx r endpoint =
           ((exchangeResultOf oauthFinishError, Some err), sm, [])"
proof (cases "Get (URL_Query r) ''state'' = ''''")
  case True
  then show ?thesis
    by (simp add: finishOAuthExchange_def UnveilState_def)
next
  case False
  with assms(1) have u: "UnveilState sm r = (Inr '''', sm)"
    by (simp add: UnveilState_def GetString_def)
  show ?thesis
  proof (cases "NewCodec c (JwtSigningSecret c)")
    case (Inl e)
    with u show ?thesis by (simp add: finishOAuthExchange_def)
  next
    case (Inr codec)
    with assms(2) obtain e where "ParseInto codec '''' = Inl e"
      by (cases "ParseInto codec ''''") auto
    with u Inr show ?thesis by (simp add: finishOAuthExchange_def)
  qed
qed

section \<open>Properties of the state storage\<close>

text \<open>
  C6: Veil on a request whose \<open>state\<close> query parameter is empty fails with the
  missing-state error and stores nothing; Unveil on such a request fails with the same
  error; Unveil with a non-empty key that the session does not hold returns the empty
  string and no error.
\<close>

theorem veil_unveil_missing_state:
  "(Get (URL_Query req) ''state'' = '''' \<longrightarrow>
      VeilRealState rnd sm req = (Inl noStateError, sm) \<and>
      UnveilState sm req = (Inl noStateError, sm)) \<and>
   (Get (URL_Query req) ''state'' \<noteq> '''' \<and> sm (Get (URL_Query req) ''state'') = None \<longrightarrow>
      UnveilState sm req = (Inr '''', sm))"
  by (simp add: VeilRealState_def UnveilState_def GetString_def)

theorem veil_unveil_missing_state_witness:
  "Get (URL_Query noStateRequest) ''state'' = '''' \<and>
   VeilRealState zeroDraws exampleSession noStateRequest = (Inl noStateError, exampleSession) \<and>
   UnveilState exampleSession noStateRequest = (Inl noStateError, exampleSession) \<and>
   Get (URL_Query forgedCallback) ''state'' \<noteq> '''' \<and>
   exampleSession (Get (URL_Query forgedCallback) ''state'') = None \<and>
   UnveilState exampleSession forgedCallback = (Inr '''', exampleSession)"
proof -
  have a: "Get (URL_Query noStateRequest) ''state'' = ''''"
    by (simp add: noStateRequest_def)
  have b: "Get (URL_Query forgedCallback) ''state'' \<noteq> '''' \<and>
           exampleSession (Get (URL_Query forgedCallback) ''state'') = None"
    by (simp add: forgedCallback_def exampleSession_def Put_def veiledA_def)
  from a b veil_unveil_missing_state[of noStateRequest zeroDraws exampleSession]
    veil_unveil_missing_state[of forgedCallback zeroDraws exampleSession]
  show ?thesis by simp
qed

text \<open>
  C8: Unveil leaves the session as it was: an entry that was read is still there, so
  for a key that the session holds, a second Unveil with the same key returns the same
  real state as the first.
\<close>

theorem unveil_keeps_session:
  "snd (UnveilState sm req) = sm \<and>
   (Get (URL_Query req) ''state'' \<noteq> '''' \<and> sm (Get (URL_Query req) ''state'') = Some s \<longrightarrow>
      UnveilState sm req = (Inr s, sm) \<and>
      UnveilState (snd (UnveilState sm req)) req = (Inr s, sm))"
  by (simp add: UnveilState_def GetString_def Let_def)

theorem unveil_keeps_session_witness:
  "Get (URL_Query callbackRequest) ''state'' \<noteq> '''' \<and>
   exampleSession (Get (URL_Query callbackRequest) ''state'') = Some ''jwt'' \<and>
   UnveilState exampleSession callbackRequest = (Inr ''jwt'', exampleSession) \<and>
   UnveilState (snd (UnveilState exampleSession callbackRequest)) callbackRequest =
     (Inr ''jwt'', exampleSession)"
proof -
  have a: "Get (URL_Query callbackRequest) ''state'' \<noteq> '''' \<and>
           exampleSession (Get (URL_Query callbackRequest) ''state'') = Some ''jwt''"
    by (simp add: callbackRequest_def exampleSession_def Put_def veiledA_def)
  from a unveil_keeps_session[of exampleSession callbackRequest "''jwt''"]
  show ?thesis by simp
qed

text \<open>
  C9: a veiled state returned by a successful Veil has length 32, each of its characters
  is one of the 36 letters and digits of \<open>letterBytes\<close>, and the character at position
  \<open>i\<close> is the letter that the draw of round \<open>i\<close> selects. Every sequence of 32 draws in
  range is accepted, and its token is the string of the letters drawn; two such
  sequences with the same token are equal, and every string of 32 letters is the token
  of one: draws that are uniform over the 36 indices give, position by position, a
  token that is uniform over the alphabet.
\<close>

theorem veiled_state_shape:
  "(VeilRealState rnd sm req = (Inr veiled, sm1) \<longrightarrow>
      length veiled = 32 \<and> set veiled \<subseteq> set letterBytes \<and>
      (\<forall>i<32. \<exists>n<36. rnd i = Some n \<and> veiled ! i = letterBytes ! n)) \<and>
   (Get (URL_Query req) ''state'' \<noteq> '''' \<and> length ks = 32 \<and>
    (\<forall>i<32. ks ! i < 36 \<and> rnd i = Some (ks ! i)) \<longrightarrow>
      VeilRealState rnd sm req =
        (Inr (map (\<lambda>k. letterBytes ! k) ks),
         Put sm (map (\<lambda>k. letterBytes ! k) ks) (Get (URL_Query req) ''state''))) \<and>
   (length ks = 32 \<and> length ks1 = 32 \<and> (\<forall>k\<in>set ks. k < 36) \<and> (\<forall>k\<in>set ks1. k < 36) \<and>
    map (\<lambda>k. letterBytes ! k) ks = map (\<lambda>k. letterBytes ! k) ks1 \<longrightarrow> ks = ks1) \<and>
   (length t = 32 \<and> set t \<subseteq> set letterBytes \<longrightarrow>
      (\<exists>ks2. length ks2 = 32 \<and> (\<forall>k\<in>set ks2. k < 36) \<and> map (\<lambda>k. letterBytes ! k) ks2 = t)) \<and>
   length letterBytes = 36 \<and> distinct letterBytes"
proof -
  have shape: "length veiled = 32 \<and> set veiled \<subseteq> set letterBytes \<and>
      (\<forall>i<32. \<exists>n<36. rnd i = Some n \<and> veiled ! i = letterBytes ! n)"
    if v: "VeilRealState rnd sm req = (Inr veiled, sm1)"
  proof -
    note r = VeilRealState_Inr(2)[OF v]
    have "\<forall>i<32. \<exists>n<36. rnd i = Some n \<and> veiled ! i = letterBytes ! n"
      using randStringBytes_nth[OF r] by (simp add: length_letterBytes)
    then show ?thesis
      using randStringBytes_length[OF r] randStringBytes_alphabet[OF r] by simp
  qed
  have accepted: "VeilRealState rnd sm req =
        (Inr (map (\<lambda>k. letterBytes ! k) ks),
         Put sm (map (\<lambda>k. letterBytes ! k) ks) (Get (URL_Query req) ''state''))"
    if "Get (URL_Query req) ''state'' \<noteq> ''''" and "length ks = 32"
      and "\<forall>i<32. ks ! i < 36 \<and> rnd i = Some (ks ! i)"
  proof -
    from that(3) have "\<forall>i<32. ks ! i < length letterBytes \<and> rnd i = Some (ks ! i)"
      by (simp add: length_letterBytes)
    from randStringBytes_draws[OF that(2) this] that(1) show ?thesis
      by (simp add: VeilRealState_def)
  qed
  have inj: "ks = ks1"
    if "length ks = 32" and "length ks1 = 32" and "\<forall>k\<in>set ks. k < 36" and "\<forall>k\<in>set ks1. k < 36"
      and "map (\<lambda>k. letterBytes ! k) ks = map (\<lambda>k. letterBytes ! k) ks1"
    using letters_inj[of ks ks1] that by (simp add: length_letterBytes)
  have surj: "\<exists>ks2. length ks2 = 32 \<and> (\<forall>k\<in>set ks2. k < 36) \<and> map (\<lambda>k. letterBytes ! k) ks2 = t"
    if "length t = 32" and "set t \<subseteq> set letterBytes"
    using letters_surj[OF that(2)] that(1) by (simp add: length_letterBytes)
  from shape accepted inj surj show ?thesis
    by (simp add: length_letterBytes distinct_letterBytes)
qed

theorem veiled_state_shape_witness:
  "Get (URL_Query authenticateRequest) ''state'' \<noteq> '''' \<and> length shiftedKs = 32 \<and>
   shiftedDraws 0 = Some 4 \<and> shiftedDraws 31 = Some 35 \<and>
   VeilRealState shiftedDraws Map.empty authenticateRequest =
     (Inr veiledE, Put Map.empty veiledE ''jwt'') \<and>
   length veiledE = 32 \<and> set veiledE \<subseteq> set letterBytes \<and>
   (\<exists>n<36. shiftedDraws 31 = Some n \<and> veiledE ! 31 = letterBytes ! n) \<and>
   veiledE \<noteq> veiledA"
proof -
  have q: "Get (URL_Query authenticateRequest) ''state'' \<noteq> ''''"
    by (simp add: authenticateRequest_def)
  have j: "Get (URL_Query authenticateRequest) ''state'' = ''jwt''"
    by (simp add: authenticateRequest_def)
  note l = shiftedKs_length
  note h = shiftedKs_draws
  have d: "shiftedDraws 0 = Some 4 \<and> shiftedDraws 31 = Some 35"
    by (simp add: shiftedDraws_def)
  have ne: "veiledE \<noteq> veiledA" by (simp add: veiledE_def veiledA_def)
  note inst = veiled_state_shape[of shiftedDraws Map.empty authenticateRequest veiledE
      "Put Map.empty veiledE ''jwt''" shiftedKs shiftedKs veiledE]
  from inst q l h have "VeilRealState shiftedDraws Map.empty authenticateRequest =
     (Inr (map (\<lambda>k. letterBytes ! k) shiftedKs),
      Put Map.empty (map (\<lambda>k. letterBytes ! k) shiftedKs)
        (Get (URL_Query authenticateRequest) ''state''))"
    by blast
  then have v: "VeilRealState shiftedDraws Map.empty authenticateRequest =
     (Inr veiledE, Put Map.empty veiledE ''jwt'')"
    by (simp only: shiftedDraws_letters j)
  with inst have s: "length veiledE = 32 \<and> set veiledE \<subseteq> set letterBytes \<and>
      (\<forall>i<32. \<exists>n<36. shiftedDraws i = Some n \<and> veiledE ! i = letterBytes ! n)"
    by blast
  then have "\<exists>n<36. shiftedDraws 31 = Some n \<and> veiledE ! 31 = letterBytes ! n"
    by simp
  with s q l d v ne show ?thesis by blast
qed

text \<open>
  C4, as the code has it: when Veil succeeds on a request with the non-empty real
  state \<open>s\<close>, Unveil of the returned token in the resulting session yields exactly \<open>s\<close>;
  the token is made of the draws alone, so it differs from \<open>s\<close> whenever \<open>s\<close> is not
  itself a string of 32 characters of \<open>letterBytes\<close>.
\<close>

theorem veil_unveil_roundtrip:
  assumes "Get (URL_Query req) ''state'' = s" and "s \<noteq> ''''"
    and "VeilRealState rnd sm req = (Inr veiled, sm1)"
    and "Get (URL_Query req1) ''state'' = veiled"
  shows "UnveilState sm1 req1 = (Inr s, sm1) \<and>
         (length s \<noteq> 32 \<or> \<not> set s \<subseteq> set letterBytes \<longrightarrow> veiled \<noteq> s)"
proof -
  note r = VeilRealState_Inr(2)[OF assms(3)]
  from randStringBytes_length[OF r] have ne: "veiled \<noteq> ''''" by auto
  from VeilRealState_Inr(3)[OF assms(3)] assms(1) have "sm1 = Put sm veiled s" by simp
  with ne assms(4) have "UnveilState sm1 req1 = (Inr s, sm1)"
    by (simp add: UnveilState_def GetString_def Put_def)
  moreover have "length s \<noteq> 32 \<or> \<not> set s \<subseteq> set letterBytes \<longrightarrow> veiled \<noteq> s"
    using randStringBytes_length[OF r] randStringBytes_alphabet[OF r] by auto
  ultimately show ?thesis by simp
qed

theorem veil_unveil_roundtrip_witness:
  "Get (URL_Query authenticateRequest) ''state'' = ''jwt'' \<and> ''jwt'' \<noteq> '''' \<and>
   VeilRealState zeroDraws Map.empty authenticateRequest = (Inr veiledA, exampleSession) \<and>
   Get (URL_Query callbackRequest) ''state'' = veiledA \<and>
   UnveilState exampleSession callbackRequest = (Inr ''jwt'', exampleSession) \<and>
   veiledA \<noteq> ''jwt''"
proof -
  have a: "Get (URL_Query authenticateRequest) ''state'' = ''jwt''"
    by (simp add: authenticateRequest_def)
  have b: "''jwt'' \<noteq> ''''" by simp
  have v: "VeilRealState zeroDraws Map.empty authenticateRequest = (Inr veiledA, exampleSession)"
    by (simp add: VeilRealState_zeroDraws authenticateRequest_def exampleSession_def)
  have d: "Get (URL_Query callbackRequest) ''state'' = veiledA"
    by (simp add: callbackRequest_def)
  from veil_unveil_roundtrip[OF a b v d] a v d show ?thesis by simp
qed

text \<open>
  The claim C4 as stated fails where the real state is the very string that the draws
  produce: the veiled token then equals the real state.
\<close>

theorem veiled_equals_real_state:
  "Get (URL_Query collidingRequest) ''state'' = veiledA \<and>
   fst (VeilRealState zeroDraws Map.empty collidingRequest) = Inr veiledA"
  by (simp add: VeilRealState_zeroDraws collidingRequest_def veiledA_nonempty)

section \<open>Properties of the controller\<close>

text \<open>
  C1: a callback whose \<open>state\<close> query parameter is not a key of the session (it was
  never stored by a prior Authenticate, or the session has lost it) makes
  \<open>finishOAuthExchange\<close> return an error without any call of the provider's token
  exchange, and \<open>Callback\<close> answers 400 without such a call. The unknown state is
  unveiled as the empty string, which the state codec, failing closed, rejects.
\<close>

theorem callback_unknown_state_no_exchange:
  assumes "sm (Get (URL_Query r) ''state'') = None"
    and "\<forall>codec. NewCodec c (JwtSigningSecret c) = Inr codec \<longrightarrow> isl (ParseInto codec '''')"
  shows "(\<exists>res err. fst (finishOAuthExchange c sm ctx r endpoint) = (res, Some err) \<and>
                    result res = oauthFinishError) \<and>
         exchangeCalls (snd (snd (finishOAuthExchange c sm ctx r endpoint))) = 0 \<and>
         exchangeCalls (snd (snd (Callback c sm ctx r))) = 0 \<and>
         StatusCode (fst (Callback c sm ctx r)) = 400"
proof -
  from finishOAuthExchange_unknown_state[where sm=sm and r=r and c=c, OF assms] obtain err where
    f: "finishOAuthExchange c sm ctx r endpoint =
          ((exchangeResultOf oauthFinishError, Some err), sm, [])"
    by blast
  from finishOAuthExchange_unknown_state[where sm=sm and r=r and c=c, OF assms] obtain err1 where
    g: "finishOAuthExchange c sm ctx r (Endpoint c) =
          ((exchangeResultOf oauthFinishError, Some err1), sm, [])"
    by blast
  have "result (exchangeResultOf oauthFinishError) = oauthFinishError"
    by (simp add: exchangeResultOf_def)
  with f have "\<exists>res err. fst (finishOAuthExchange c sm ctx r endpoint) = (res, Some err) \<and>
                  result res = oauthFinishError"
    by simp
  moreover from f have "exchangeCalls (snd (snd (finishOAuthExchange c sm ctx r endpoint))) = 0"
    by (simp add: exchangeCalls_def)
  moreover from g have "exchangeCalls (snd (snd (Callback c sm ctx r))) = 0"
    by (simp add: Callback_def exchangeCalls_def)
  moreover from g have "StatusCode (fst (Callback c sm ctx r)) = 400"
    by (simp add: Callback_def LogErrorAndWriteResponse_def)
  ultimately show ?thesis by blast
qed

theorem callback_unknown_state_no_exchange_witness:
  "exampleSession (Get (URL_Query forgedCallback) ''state'') = None \<and>
   NewCodec exampleController (JwtSigningSecret exampleController) = Inr exampleCodec \<and>
   isl (ParseInto exampleCodec '''') \<and>
   fst (finishOAuthExchange exampleController exampleSession Background forgedCallback
          (Endpoint exampleController)) =
     (exchangeResultOf oauthFinishError,
      Some (Errorf ''failed to parse JWT state string'' (collaboratorError ''invalid state''))) \<and>
   exchangeCalls (snd (snd (finishOAuthExchange exampleController exampleSession Background
                              forgedCallback (Endpoint exampleController)))) = 0 \<and>
   exchangeCalls (snd (snd (Callback exampleController exampleSession Background
                              forgedCallback))) = 0 \<and>
   StatusCode (fst (Callback exampleController exampleSession Background forgedCallback)) = 400"
proof -
  have a: "exampleSession (Get (URL_Query forgedCallback) ''state'') = None"
    by (simp add: forgedCallback_def exampleSession_def Put_def veiledA_def)
  have n: "NewCodec exampleController (JwtSigningSecret exampleController) = Inr exampleCodec"
    by (simp add: exampleController_def exampleNewCodec_def)
  have p: "isl (ParseInto exampleCodec '''')"
    by (simp add: exampleCodec_def exampleParse_def)
  from n p have b: "\<forall>codec. NewCodec exampleController (JwtSigningSecret exampleController) =
      Inr codec \<longrightarrow> isl (ParseInto codec '''')"
    by simp
  have e: "fst (finishOAuthExchange exampleController exampleSession Background forgedCallback
                  (Endpoint exampleController)) =
     (exchangeResultOf oauthFinishError,
      Some (Errorf ''failed to parse JWT state string'' (collaboratorError ''invalid state'')))"
    by (simp add: finishOAuthExchange_def UnveilState_def GetString_def Put_def veiledA_def
        example_defs)
  from callback_unknown_state_no_exchange[where sm=exampleSession and r=forgedCallback
      and c=exampleController and ctx=Background and endpoint="Endpoint exampleController", OF a b]
    a n p e
  show ?thesis by simp
qed





text \<open>
  C5, on the code: a callback with a stored veiled state and no bearer token. The
  exchange result is \<open>oauthFinishK8sAuthRequired\<close> and no provider exchange is made, but
  \<open>finishOAuthExchange\<close> returns the result together with a non-nil error, so \<open>Callback\<close>
  answers 400 in its first branch and never reaches the branch that answers 401.
\<close>

theorem callback_without_bearer_answers_400:
  "GetToken exampleController callbackNoBearer = Inl (collaboratorError ''no token found'') \<and>
   fst (finishOAuthExchange exampleController exampleSession Background callbackNoBearer
          (Endpoint exampleController)) =
     (exchangeResultOf oauthFinishK8sAuthRequired, Some noActiveSessionError) \<and>
   exchangeCalls (snd (snd (Callback exampleController exampleSession Background
                              callbackNoBearer))) = 0 \<and>
   StatusCode (fst (Callback exampleController exampleSession Background callbackNoBearer)) = 400"
  by (simp add: Callback_def finishOAuthExchange_def UnveilState_def GetString_def Put_def
      LogErrorAndWriteResponse_def exchangeCalls_def veiledA_def example_defs)

text \<open>
  C7, as the code has it: when the secure random source fails in some round of the
  veiling step of \<open>Authenticate\<close> (every earlier round having drawn a letter index),
  Veil fails with the generation error, nothing is stored in the session, and the
  request is answered with status 400 and the error's message.
\<close>

theorem authenticate_random_failure:
  assumes "NewCodec c (JwtSigningSecret c) = Inr codec"
    and "ParseAnonymous codec (FormValue r ''state'') = Inr state"
    and "GetToken c r = Inr bearer"
    and "fst (checkIdentityHasAccess c bearer r state) = Inr True"
    and "Get (URL_Query r) ''state'' \<noteq> ''''"
    and "i < 32" and "rand_Int c i = None" and "\<forall>j<i. \<exists>n<36. rand_Int c j = Some n"
  shows "VeilRealState (rand_Int c) sm r = (Inl randomStringGenerationError, sm) \<and>
         fst (Authenticate c sm r) =
           LogErrorAndWriteResponse 400 (Error randomStringGenerationError) \<and>
         StatusCode (fst (Authenticate c sm r)) = 400 \<and>
         fst (snd (Authenticate c sm r)) = sm"
proof -
  from assms(8) have "\<forall>j<i. \<exists>n<length letterBytes. rand_Int c j = Some n"
    by (simp add: length_letterBytes)
  from randStringBytes_fails[OF assms(6) assms(7) this]
  have v: "VeilRealState (rand_Int c) sm r = (Inl randomStringGenerationError, sm)"
    using assms(5) by (simp add: VeilRealState_def)
  from assms(4) obtain evs where k: "checkIdentityHasAccess c bearer r state = (Inr True, evs)"
    by (cases "checkIdentityHasAccess c bearer r state") simp
  have a: "fst (Authenticate c sm r) =
             LogErrorAndWriteResponse 400 (Error randomStringGenerationError)"
    unfolding Authenticate_def Let_def using assms(1-3) v k
    by simp
  have s: "fst (snd (Authenticate c sm r)) = sm"
    unfolding Authenticate_def Let_def using assms(1-3) v k
    by simp
  from a have "StatusCode (fst (Authenticate c sm r)) = 400"
    by (simp add: LogErrorAndWriteResponse_def)
  with v a s show ?thesis by simp
qed

theorem authenticate_random_failure_witness:
  "NewCodec failingRandController (JwtSigningSecret failingRandController) = Inr exampleCodec \<and>
   ParseAnonymous exampleCodec (FormValue authenticateRequest ''state'') = Inr exampleState \<and>
   GetToken failingRandController authenticateRequest = Inr ''alice'' \<and>
   fst (checkIdentityHasAccess failingRandController ''alice'' authenticateRequest exampleState) =
     Inr True \<and>
   Get (URL_Query authenticateRequest) ''state'' \<noteq> '''' \<and>
   rand_Int failingRandController 5 = None \<and>
   rand_Int failingRandController 4 = Some 4 \<and>
   StatusCode (fst (Authenticate failingRandController Map.empty authenticateRequest)) = 400 \<and>
   fst (snd (Authenticate failingRandController Map.empty authenticateRequest)) = Map.empty"
proof -
  have n: "NewCodec failingRandController (JwtSigningSecret failingRandController) =
             Inr exampleCodec"
    by (simp add: example_defs)
  have p: "ParseAnonymous exampleCodec (FormValue authenticateRequest ''state'') = Inr exampleState"
    by (simp add: exampleCodec_def exampleParse_def FormValue_def authenticateRequest_def)
  have g: "GetToken failingRandController authenticateRequest = Inr ''alice''"
    by (simp add: example_defs)
  have k: "fst (checkIdentityHasAccess failingRandController ''alice'' authenticateRequest
                  exampleState) = Inr True"
    by (simp add: checkIdentityHasAccess_def example_defs)
  have q: "Get (URL_Query authenticateRequest) ''state'' \<noteq> ''''"
    by (simp add: authenticateRequest_def)
  have i: "(5::nat) < 32" by simp
  have f: "rand_Int failingRandController 5 = None"
    by (simp add: example_defs failingDraws_def)
  have f4: "rand_Int failingRandController 4 = Some 4"
    by (simp add: example_defs failingDraws_def)
  have e: "\<forall>j<5. \<exists>n<36. rand_Int failingRandController j = Some n"
    by (simp add: example_defs failingDraws_def)
  from authenticate_random_failure[OF n p g k q i f e, of Map.empty] n p g k q f f4
  show ?thesis by (simp add: LogErrorAndWriteResponse_def)
qed

text \<open>
  The claim C7 as stated fails where the source fails in round 5: the response has
  status 400, a client error, and not a status of the 5xx class.
\<close>

theorem random_failure_is_answered_400:
  "rand_Int failingRandController 5 = None \<and>
   fst (Authenticate failingRandController Map.empty authenticateRequest) =
     \<lparr>StatusCode = 400, Body = ''not able to generate new random string'', Location = ''''\<rparr>"
  by (simp add: Authenticate_def checkIdentityHasAccess_def VeilRealState_def
      failingDraws_token failingDraws_def FormValue_def LogErrorAndWriteResponse_def example_defs)

section \<open>Properties of the error page\<close>

text \<open>
  C10, as the code has it: the view data that \<open>CallbackErrorHandler\<close> hands to the
  template of the error page is read from the request itself: the title is the value
  of the \<open>error\<close> query parameter and the message is the value of the
  \<open>error_description\<close> query parameter, each the empty string when absent. When the
  template fails, the handler also writes both raw values into the response body, after
  the part of the page that was written before the failure; the status is 500 when
  the template had made no write, and the 200 already sent otherwise. When the template
  could not be parsed, the handler panics and renders nothing.
\<close>

theorem error_page_shows_query_values:
  "snd (CallbackErrorHandler (Some tmpl_Execute) r) =
     [CallExecute \<lparr>Title = Get (URL_Query r) ''error'',
                   Message = Get (URL_Query r) ''error_description''\<rparr>] \<and>
   (tmpl_Execute \<lparr>Title = Get (URL_Query r) ''error'',
                  Message = Get (URL_Query r) ''error_description''\<rparr> = (writes, None) \<longrightarrow>
      fst (CallbackErrorHandler (Some tmpl_Execute) r) =
        Inr \<lparr>StatusCode = 200, Body = concat writes, Location = ''''\<rparr>) \<and>
   (tmpl_Execute \<lparr>Title = Get (URL_Query r) ''error'',
                  Message = Get (URL_Query r) ''error_description''\<rparr> = (writes, Some err) \<longrightarrow>
      fst (CallbackErrorHandler (Some tmpl_Execute) r) =
        Inr \<lparr>StatusCode = (if writes = [] then 500 else 200),
             Body = concat writes @ ''Error response returned to OAuth callback: '' @
                    Get (URL_Query r) ''error'' @ ''. Message: '' @
                    Get (URL_Query r) ''error_description'' @ '' '',
             Location = ''''\<rparr>) \<and>
   CallbackErrorHandler None r = (Inl panicNilDereference, [])"
proof -
  let ?data = "\<lparr>Title = Get (URL_Query r) ''error'',
                 Message = Get (URL_Query r) ''error_description''\<rparr>"
  have calls: "snd (CallbackErrorHandler (Some tmpl_Execute) r) = [CallExecute ?data]"
    by (simp add: CallbackErrorHandler_def Let_def split: prod.splits option.splits)
  have ok: "fst (CallbackErrorHandler (Some tmpl_Execute) r) =
        Inr \<lparr>StatusCode = 200, Body = concat writes, Location = ''''\<rparr>"
    if "tmpl_Execute ?data = (writes, None)"
    using that template_writes[of writes]
    by (simp add: CallbackErrorHandler_def Let_def responseOf_def WriteHeader_def
        newResponseWriter_def)
  have failed: "fst (CallbackErrorHandler (Some tmpl_Execute) r) =
        Inr \<lparr>StatusCode = (if writes = [] then 500 else 200),
             Body = concat writes @ ''Error response returned to OAuth callback: '' @
                    Get (URL_Query r) ''error'' @ ''. Message: '' @
                    Get (URL_Query r) ''error_description'' @ '' '',
             Location = ''''\<rparr>"
    if "tmpl_Execute ?data = (writes, Some err)"
    using that template_writes[of writes]
    by (simp add: CallbackErrorHandler_def Let_def responseOf_def WriteHeader_def Write_def
        newResponseWriter_def)
  have nil: "CallbackErrorHandler None r = (Inl panicNilDereference, [])"
    by (simp add: CallbackErrorHandler_def Let_def)
  from calls ok failed nil show ?thesis by simp
qed

theorem error_page_shows_query_values_witness:
  "exampleTemplate \<lparr>Title = ''access_denied'', Message = ''<b>denied</b>''\<rparr> =
     ([''access_denied'', '': <b>denied</b>''], None) \<and>
   CallbackErrorHandler (Some exampleTemplate) errorPageRequest =
     (Inr \<lparr>StatusCode = 200, Body = ''access_denied: <b>denied</b>'', Location = ''''\<rparr>,
      [CallExecute \<lparr>Title = ''access_denied'', Message = ''<b>denied</b>''\<rparr>]) \<and>
   brokenTemplate \<lparr>Title = ''access_denied'', Message = ''<b>denied</b>''\<rparr> =
     ([''<h1>''], Some (collaboratorError ''no such field'')) \<and>
   fst (CallbackErrorHandler (Some brokenTemplate) errorPageRequest) =
     Inr \<lparr>StatusCode = 200,
          Body = ''<h1>Error response returned to OAuth callback: access_denied. '' @
                 ''Message: <b>denied</b> '',
          Location = ''''\<rparr> \<and>
   silentTemplate \<lparr>Title = ''access_denied'', Message = ''<b>denied</b>''\<rparr> =
     ([], Some (collaboratorError ''cannot escape'')) \<and>
   fst (CallbackErrorHandler (Some silentTemplate) errorPageRequest) =
     Inr \<lparr>StatusCode = 500,
          Body = ''Error response returned to OAuth callback: access_denied. '' @
                 ''Message: <b>denied</b> '',
          Location = ''''\<rparr>"
proof -
  have q: "Get (URL_Query errorPageRequest) ''error'' = ''access_denied'' \<and>
           Get (URL_Query errorPageRequest) ''error_description'' = ''<b>denied</b>''"
    by (simp add: errorPageRequest_def)
  have e: "exampleTemplate \<lparr>Title = ''access_denied'', Message = ''<b>denied</b>''\<rparr> =
     ([''access_denied'', '': <b>denied</b>''], None)"
    by (simp add: exampleTemplate_def)
  have b: "brokenTemplate \<lparr>Title = ''access_denied'', Message = ''<b>denied</b>''\<rparr> =
     ([''<h1>''], Some (collaboratorError ''no such field''))"
    by (simp add: brokenTemplate_def)
  have n: "silentTemplate \<lparr>Title = ''access_denied'', Message = ''<b>denied</b>''\<rparr> =
     ([], Some (collaboratorError ''cannot escape''))"
    by (simp add: silentTemplate_def)
  from error_page_shows_query_values[of exampleTemplate errorPageRequest
      "[''access_denied'', '': <b>denied</b>'']"] q e
  have 1: "CallbackErrorHandler (Some exampleTemplate) errorPageRequest =
     (Inr \<lparr>StatusCode = 200, Body = ''access_denied: <b>denied</b>'', Location = ''''\<rparr>,
      [CallExecute \<lparr>Title = ''access_denied'', Message = ''<b>denied</b>''\<rparr>])"
    by (simp add: prod_eq_iff)
  from error_page_shows_query_values[of brokenTemplate errorPageRequest "[''<h1>'']"
      "collaboratorError ''no such field''"] q b
  have 2: "fst (CallbackErrorHandler (Some brokenTemplate) errorPageRequest) =
     Inr \<lparr>StatusCode = 200,
          Body = ''<h1>Error response returned to OAuth callback: access_denied. '' @
                 ''Message: <b>denied</b> '',
          Location = ''''\<rparr>"
    by simp
  from error_page_shows_query_values[of silentTemplate errorPageRequest "[]"
      "collaboratorError ''cannot escape''"] q n
  have 3: "fst (CallbackErrorHandler (Some silentTemplate) errorPageRequest) =
     Inr \<lparr>StatusCode = 500,
          Body = ''Error response returned to OAuth callback: access_denied. '' @
                 ''Message: <b>denied</b> '',
          Location = ''''\<rparr>"
    by simp
  from e b n 1 2 3 show ?thesis by simp
qed

text \<open>
  The claim C10 as stated fails on a request that carries both query parameters: the
  values rendered are the raw values that the client sent.
\<close>

theorem error_page_echoes_query:
  "Get (URL_Query errorPageRequest) ''error'' = ''access_denied'' \<and>
   Get (URL_Query errorPageRequest) ''error_description'' = ''<b>denied</b>'' \<and>
   CallbackErrorHandler (Some exampleTemplate) errorPageRequest =
     (Inr \<lparr>StatusCode = 200, Body = ''access_denied: <b>denied</b>'', Location = ''''\<rparr>,
      [CallExecute \<lparr>Title = ''access_denied'', Message = ''<b>denied</b>''\<rparr>])"
  by (simp add: CallbackErrorHandler_def Let_def errorPageRequest_def exampleTemplate_def
      responseOf_def WriteHeader_def Write_def newResponseWriter_def)

end
